theory Spec2Isabelle
  imports Main
begin

section \<open>The custom widgets of \<^verbatim>\<open>cigvis/gui/custom_widgets.py\<close>\<close>

text \<open>
  The module subclasses widgets of a GUI toolkit (PyQt5). Each class is modelled by a
  record of the part of the widget's state that its methods read and write, and each
  method by a function from the state before to the state after. A signal emission is a
  value the function returns (the list of values emitted, in order) or, where a slot is
  connected to the signal in the class itself, the call of that slot. A Python exception
  is the left summand of a sum.

  What the toolkit does is not code of the module. The three toolkit behaviours the
  methods rely on are written as definitions of their own and marked as such
  (\<open>setValue\<close>, \<open>setChecked_with\<close>, \<open>toggle_setChecked_with\<close>); a method of the toolkit's
  base class that an override forwards to is a parameter of the model.
\<close>

datatype error = IndexError | TypeError

text \<open>Python's \<^verbatim>\<open>xs[i]\<close> for an index \<open>i \<ge> 0\<close>: IndexError beyond the end.\<close>

definition getitem :: "'a list \<Rightarrow> nat \<Rightarrow> error + 'a" where
  "getitem xs i = (if i < length xs then Inr (xs ! i) else Inl IndexError)"

subsection \<open>RectP\<close>

text \<open>
  The four attributes hold a coordinate or Python's \<^verbatim>\<open>None\<close> (the default of every
  constructor argument): \<open>None\<close> is \<^verbatim>\<open>None\<close>. Coordinates are numbers with exact
  arithmetic: the type \<open>'a\<close> is \<open>int\<close> for Python's integers; for Python's floats it
  stands for the reals, so rounding, infinities and NaN are outside the model.
\<close>

record 'a RectP =
  x0 :: "'a option"
  y0 :: "'a option"
  x1 :: "'a option"
  y1 :: "'a option"

definition RectP_init ::
  "'a option \<Rightarrow> 'a option \<Rightarrow> 'a option \<Rightarrow> 'a option \<Rightarrow> 'a RectP" where
  "RectP_init a b c d = \<lparr>x0 = a, y0 = b, x1 = c, y1 = d\<rparr>"

definition add_p0 :: "'a RectP \<Rightarrow> 'a option \<Rightarrow> 'a option \<Rightarrow> 'a RectP" where
  "add_p0 r a b = r\<lparr>x0 := a, y0 := b\<rparr>"

definition add_p1 :: "'a RectP \<Rightarrow> 'a option \<Rightarrow> 'a option \<Rightarrow> 'a RectP" where
  "add_p1 r c d = r\<lparr>x1 := c, y1 := d\<rparr>"

text \<open>
  \<^verbatim>\<open>from_points(p0, p1)\<close> reads \<^verbatim>\<open>p0[0], p0[1], p1[0], p1[1]\<close> in this order and
  passes them to the constructor; a list that is too short raises IndexError.
\<close>

definition from_points :: "'a option list \<Rightarrow> 'a option list \<Rightarrow> error + 'a RectP" where
  "from_points p0 p1 =
     (case getitem p0 0 of Inl e \<Rightarrow> Inl e | Inr a \<Rightarrow>
     (case getitem p0 1 of Inl e \<Rightarrow> Inl e | Inr b \<Rightarrow>
     (case getitem p1 0 of Inl e \<Rightarrow> Inl e | Inr c \<Rightarrow>
     (case getitem p1 1 of Inl e \<Rightarrow> Inl e | Inr d \<Rightarrow>
      Inr (RectP_init a b c d)))))"

text \<open>Python's \<^verbatim>\<open>a - b\<close> on attributes: TypeError when an operand is \<^verbatim>\<open>None\<close>.\<close>

definition py_sub :: "'a::minus option \<Rightarrow> 'a option \<Rightarrow> error + 'a" where
  "py_sub a b =
     (case a of None \<Rightarrow> Inl TypeError
      | Some u \<Rightarrow> (case b of None \<Rightarrow> Inl TypeError | Some v \<Rightarrow> Inr (u - v)))"

text \<open>
  \<^verbatim>\<open>to_start_size\<close> computes the width, then the height, then builds the list
  \<^verbatim>\<open>[self.x0, self.y0, width, height]\<close>. Where both subtractions succeed, \<open>x0\<close> and
  \<open>y0\<close> are numbers, so the list is a list of numbers.
\<close>

definition to_start_size :: "'a::{minus,abs} RectP \<Rightarrow> error + 'a list" where
  "to_start_size r =
     (case py_sub (x1 r) (x0 r) of Inl e \<Rightarrow> Inl e | Inr dx \<Rightarrow>
     (case py_sub (y1 r) (y0 r) of Inl e \<Rightarrow> Inl e | Inr dy \<Rightarrow>
     (let width = \<bar>dx\<bar>; height = \<bar>dy\<bar>
      in (case x0 r of None \<Rightarrow> Inl TypeError | Some a \<Rightarrow>
         (case y0 r of None \<Rightarrow> Inl TypeError | Some b \<Rightarrow>
          Inr [a, b, width, height])))))"

definition to_points :: "'a RectP \<Rightarrow> 'a option list" where
  "to_points r = [x0 r, y0 r, x1 r, y1 r]"

text \<open>A sequence of corner assignments, applied from left to right.\<close>

datatype 'a corner_call = Add_p0 "'a option" "'a option" | Add_p1 "'a option" "'a option"

fun corner_step :: "'a RectP \<Rightarrow> 'a corner_call \<Rightarrow> 'a RectP" where
  "corner_step r (Add_p0 a b) = add_p0 r a b"
| "corner_step r (Add_p1 c d) = add_p1 r c d"

fun corner_run :: "'a RectP \<Rightarrow> 'a corner_call list \<Rightarrow> 'a RectP" where
  "corner_run r [] = r"
| "corner_run r (c # cs) = corner_run (corner_step r c) cs"

text \<open>
  The arguments of the most recent \<^verbatim>\<open>add_p0\<close> (\<^verbatim>\<open>add_p1\<close>) of a sequence, if it has
  one: the corner a reader of the sequence expects the rectangle to hold.
\<close>

fun last_p0 :: "'a corner_call list \<Rightarrow> ('a option \<times> 'a option) option" where
  "last_p0 [] = None"
| "last_p0 (c # cs) =
     (case last_p0 cs of Some p \<Rightarrow> Some p
      | None \<Rightarrow> (case c of Add_p0 a b \<Rightarrow> Some (a, b) | Add_p1 _ _ \<Rightarrow> None))"

fun last_p1 :: "'a corner_call list \<Rightarrow> ('a option \<times> 'a option) option" where
  "last_p1 [] = None"
| "last_p1 (c # cs) =
     (case last_p1 cs of Some p \<Rightarrow> Some p
      | None \<Rightarrow> (case c of Add_p1 a b \<Rightarrow> Some (a, b) | Add_p0 _ _ \<Rightarrow> None))"

subsection \<open>MyQSpinBox\<close>

text \<open>
  The state of the spin box the methods read: \<^verbatim>\<open>value()\<close>, \<^verbatim>\<open>minimum()\<close> and
  \<^verbatim>\<open>maximum()\<close>. The toolkit keeps \<open>minimum \<le> value \<le> maximum\<close> (the setters of the
  range clamp the value), and its integers are machine integers, so that
  \<^verbatim>\<open>value() + 1\<close> below the maximum and \<^verbatim>\<open>value() - 1\<close> above the minimum never
  overflow; they are \<open>int\<close> here.
\<close>

record MyQSpinBox =
  cur_value :: int
  minimum :: int
  maximum :: int

datatype key = Key_Return | Key_Up | Key_Down | Key_Other nat

text \<open>
  Toolkit: \<^verbatim>\<open>QSpinBox.setValue\<close> stores the value clamped to the range. It emits the
  toolkit's own \<^verbatim>\<open>valueChanged\<close>, never the class's \<^verbatim>\<open>changed\<close>.
\<close>

definition setValue :: "MyQSpinBox \<Rightarrow> int \<Rightarrow> MyQSpinBox" where
  "setValue s v =
     (let v1 = (if v < minimum s then minimum s else v);
          v2 = (if maximum s < v1 then maximum s else v1)
      in s\<lparr>cur_value := v2\<rparr>)"

text \<open>
  Both methods return the state after and the values the custom signal \<^verbatim>\<open>changed\<close>
  emitted, in order. \<open>super_stepBy\<close> and \<open>super_keyPressEvent\<close> are the base class's
  methods the overrides forward to (the base \<^verbatim>\<open>keyPressEvent\<close> may itself step, and
  so emit).
\<close>

definition stepBy ::
  "(MyQSpinBox \<Rightarrow> int \<Rightarrow> MyQSpinBox) \<Rightarrow> MyQSpinBox \<Rightarrow> int \<Rightarrow> MyQSpinBox \<times> int list" where
  "stepBy super_stepBy s steps =
     (let s' = super_stepBy s steps in (s', [cur_value s']))"

definition keyPressEvent ::
  "(MyQSpinBox \<Rightarrow> key \<Rightarrow> MyQSpinBox \<times> int list) \<Rightarrow> MyQSpinBox \<Rightarrow> key
     \<Rightarrow> MyQSpinBox \<times> int list" where
  "keyPressEvent super_keyPressEvent s k =
     (if k = Key_Return then (s, [cur_value s])
      else if k = Key_Up then
        (if maximum s \<le> cur_value s then (s, [])
         else (let v = cur_value s + 1 in (setValue s v, [v])))
      else if k = Key_Down then
        (if cur_value s \<le> minimum s then (s, [])
         else (let v = cur_value s - 1 in (setValue s v, [v])))
      else super_keyPressEvent s k)"

subsection \<open>Checkable buttons\<close>

text \<open>
  What the module reads of a toolkit button: its caption (\<^verbatim>\<open>text()\<close>) and whether it
  is checked (\<^verbatim>\<open>isChecked()\<close>). A button is named by its index in the list that
  holds it; two buttons are the same object exactly when their indices are equal, which
  is how Python compares widgets.
\<close>

record QAbstractButton =
  btn_text :: string
  checked :: bool

subsection \<open>RadioButtonPanel\<close>

text \<open>
  \<open>selected = None\<close> stands for the attribute \<^verbatim>\<open>selected\<close> before its first
  assignment, which happens inside the constructor.
\<close>

record RadioButtonPanel =
  names :: "string list"
  radioButtons :: "QAbstractButton list"
  selected :: "string option"

text \<open>
  Toolkit: \<^verbatim>\<open>setChecked(c)\<close> on button \<open>i\<close> of the panel. Nothing happens when the
  button is in state \<open>c\<close> already. Otherwise the state is stored and the signal
  \<^verbatim>\<open>toggled\<close> is emitted, which calls the connected slot at once, with the button as
  \<^verbatim>\<open>sender()\<close>. Mouse clicks never reach \<^verbatim>\<open>setChecked\<close>: \<^verbatim>\<open>UnpickRadioButton\<close>
  overrides both mouse handlers with \<^verbatim>\<open>pass\<close>.

  The toolkit also groups the radio buttons of one parent (auto-exclusive buttons): it
  refuses to switch off the checked button of a group of two or more, and it switches
  the checked button off when another one is switched on. That is not modelled. It
  removes steps (a refused call changes nothing) and repeats what the slot below does
  itself, so a state the toolkit can reach is reachable here too; a panel with a single
  button has no group, and the toolkit switches it off as written here.
\<close>

definition setChecked_with ::
  "(RadioButtonPanel \<Rightarrow> nat \<Rightarrow> RadioButtonPanel) \<Rightarrow> RadioButtonPanel \<Rightarrow> nat \<Rightarrow> bool
     \<Rightarrow> RadioButtonPanel" where
  "setChecked_with slot p i c =
     (if checked (radioButtons p ! i) = c then p
      else slot (p\<lparr>radioButtons := (radioButtons p)[i := (radioButtons p ! i)\<lparr>checked := c\<rparr>]\<rparr>) i)"

text \<open>
  The slot \<^verbatim>\<open>onRadioButtonChanged\<close>. Its loop calls \<^verbatim>\<open>setChecked(False)\<close> on the other
  buttons, and each such call that changes a button runs the slot again, nested, with
  that button as sender. \<open>nested\<close> is the slot those calls run. The sender of a nested
  call has just been switched off, and the slot returns at once for a sender that is not
  checked; so the slot is defined with a nested slot that does nothing, and
  \<open>onRadioButtonChanged_unfold\<close> proves that it satisfies the recursive equation of the
  source.
\<close>

definition onRadioButtonChanged_with ::
  "(RadioButtonPanel \<Rightarrow> nat \<Rightarrow> RadioButtonPanel) \<Rightarrow> RadioButtonPanel \<Rightarrow> nat
     \<Rightarrow> RadioButtonPanel" where
  "onRadioButtonChanged_with nested p sender =
     (let radioButton = radioButtons p ! sender in
      if checked radioButton then
        fold (\<lambda>rad q. if rad \<noteq> sender then setChecked_with nested q rad False else q)
          [0..<length (radioButtons p)]
          (p\<lparr>selected := Some (btn_text radioButton)\<rparr>)
      else p)"

definition onRadioButtonChanged :: "RadioButtonPanel \<Rightarrow> nat \<Rightarrow> RadioButtonPanel" where
  "onRadioButtonChanged = onRadioButtonChanged_with (\<lambda>p sender. p)"

definition setChecked :: "RadioButtonPanel \<Rightarrow> nat \<Rightarrow> bool \<Rightarrow> RadioButtonPanel" where
  "setChecked = setChecked_with onRadioButtonChanged"

text \<open>
  The constructor: one unchecked button per name, in order, each connected to the slot;
  then \<^verbatim>\<open>self.radioButtons[0].setChecked(True)\<close> and \<^verbatim>\<open>self.selected = self.names[0]\<close>,
  each an IndexError on an empty list. The layout direction \<open>hori\<close> does not reach the
  state modelled.
\<close>

definition RadioButtonPanel_init :: "string list \<Rightarrow> bool \<Rightarrow> error + RadioButtonPanel" where
  "RadioButtonPanel_init names0 hori =
     (let p0 = \<lparr>names = names0,
                radioButtons = map (\<lambda>name. \<lparr>btn_text = name, checked = False\<rparr>) names0,
                selected = None\<rparr>
      in (case getitem (radioButtons p0) 0 of Inl e \<Rightarrow> Inl e
          | Inr first \<Rightarrow>
             (let p1 = setChecked p0 0 True
              in (case getitem (names p1) 0 of Inl e \<Rightarrow> Inl e
                  | Inr name \<Rightarrow> Inr (p1\<lparr>selected := Some name\<rparr>)))))"

definition getCurrentSelection :: "RadioButtonPanel \<Rightarrow> string option" where
  "getCurrentSelection p = selected p"

text \<open>
  A sequence of toggles: \<open>(i, c)\<close> is \<^verbatim>\<open>radioButtons[i].setChecked(c)\<close>, which covers
  \<^verbatim>\<open>toggle()\<close> and \<^verbatim>\<open>click()\<close> (they call it with the negated state).
\<close>

fun panel_run :: "RadioButtonPanel \<Rightarrow> (nat \<times> bool) list \<Rightarrow> RadioButtonPanel" where
  "panel_run p [] = p"
| "panel_run p (e # es) = panel_run (setChecked p (fst e) (snd e)) es"

text \<open>The indices of the buttons that report checked, in the order of the panel.\<close>

definition checked_buttons :: "RadioButtonPanel \<Rightarrow> nat list" where
  "checked_buttons p =
     filter (\<lambda>j. checked (radioButtons p ! j)) [0..<length (radioButtons p)]"

text \<open>Auxiliary notions for the proofs: what the slot's loop amounts to, and the
  invariant of the panel.\<close>

definition uncheck :: "RadioButtonPanel \<Rightarrow> nat \<Rightarrow> RadioButtonPanel" where
  "uncheck q rad =
     q\<lparr>radioButtons := (radioButtons q)[rad := (radioButtons q ! rad)\<lparr>checked := False\<rparr>]\<rparr>"

definition uncheck_others :: "nat \<Rightarrow> nat list \<Rightarrow> RadioButtonPanel \<Rightarrow> RadioButtonPanel" where
  "uncheck_others sender js q = fold (\<lambda>rad q. if rad \<noteq> sender then uncheck q rad else q) js q"

definition fresh_panel :: "string list \<Rightarrow> RadioButtonPanel" where
  "fresh_panel ns = \<lparr>names = ns,
      radioButtons = map (\<lambda>name. \<lparr>btn_text = name, checked = False\<rparr>) ns, selected = None\<rparr>"

definition panel_inv :: "RadioButtonPanel \<Rightarrow> bool" where
  "panel_inv p \<longleftrightarrow>
     map btn_text (radioButtons p) = names p
     \<and> (\<forall>j<length (radioButtons p). \<forall>k<length (radioButtons p).
           checked (radioButtons p ! j) \<longrightarrow> checked (radioButtons p ! k) \<longrightarrow> j = k)
     \<and> (\<forall>j<length (radioButtons p).
           checked (radioButtons p ! j) \<longrightarrow> selected p = Some (btn_text (radioButtons p ! j)))
     \<and> (\<exists>n\<in>set (names p). selected p = Some n)"

section \<open>Properties\<close>

subsection \<open>RectP\<close>

lemma corner_run_x0:
  "x0 (corner_run r cs) = (case last_p0 cs of Some p \<Rightarrow> fst p | None \<Rightarrow> x0 r)"
  by (induction cs arbitrary: r)
     (auto simp: add_p0_def add_p1_def split: option.splits corner_call.splits)

lemma corner_run_y0:
  "y0 (corner_run r cs) = (case last_p0 cs of Some p \<Rightarrow> snd p | None \<Rightarrow> y0 r)"
  by (induction cs arbitrary: r)
     (auto simp: add_p0_def add_p1_def split: option.splits corner_call.splits)

lemma corner_run_x1:
  "x1 (corner_run r cs) = (case last_p1 cs of Some p \<Rightarrow> fst p | None \<Rightarrow> x1 r)"
  by (induction cs arbitrary: r)
     (auto simp: add_p0_def add_p1_def split: option.splits corner_call.splits)

lemma corner_run_y1:
  "y1 (corner_run r cs) = (case last_p1 cs of Some p \<Rightarrow> snd p | None \<Rightarrow> y1 r)"
  by (induction cs arbitrary: r)
     (auto simp: add_p0_def add_p1_def split: option.splits corner_call.splits)

text \<open>
  C2. Take any rectangle and any sequence of \<^verbatim>\<open>add_p0\<close>/\<^verbatim>\<open>add_p1\<close> calls in which
  the most recent call of each kind passed two numbers, so that both corners are set:
  \<open>(a0, b0)\<close> and \<open>(a1, b1)\<close>. Then \<^verbatim>\<open>to_start_size\<close> returns the first corner
  followed by the width \<open>\<bar>a1 - a0\<bar>\<close> and the height \<open>\<bar>b1 - b0\<bar>\<close>, and neither is
  negative.
\<close>

theorem to_start_size_abs_differences:
  fixes r :: "('a::linordered_idom) RectP"
  assumes "last_p0 cs = Some (Some a0, Some b0)"
    and "last_p1 cs = Some (Some a1, Some b1)"
  shows "to_start_size (corner_run r cs) = Inr [a0, b0, \<bar>a1 - a0\<bar>, \<bar>b1 - b0\<bar>]
         \<and> 0 \<le> \<bar>a1 - a0\<bar> \<and> 0 \<le> \<bar>b1 - b0\<bar>"
  using assms
  by (simp add: to_start_size_def py_sub_def corner_run_x0 corner_run_y0
        corner_run_x1 corner_run_y1)

theorem to_start_size_abs_differences_witness:
  "last_p0 [Add_p1 (Some 9) (Some 9), Add_p0 (Some 5) (Some 7), Add_p1 (Some (2::int)) (Some 7)]
     = Some (Some 5, Some 7)
   \<and> last_p1 [Add_p1 (Some 9) (Some 9), Add_p0 (Some 5) (Some 7), Add_p1 (Some (2::int)) (Some 7)]
     = Some (Some 2, Some 7)
   \<and> to_start_size (corner_run (RectP_init None None None None)
        [Add_p1 (Some 9) (Some 9), Add_p0 (Some 5) (Some 7), Add_p1 (Some (2::int)) (Some 7)])
     = Inr [5, 7, 3, 0]"
  using to_start_size_abs_differences
    [of "[Add_p1 (Some 9) (Some 9), Add_p0 (Some 5) (Some 7), Add_p1 (Some (2::int)) (Some 7)]"
        5 7 2 7 "RectP_init None None None None"]
  by simp

text \<open>
  C7. \<^verbatim>\<open>from_points\<close> accepts every pair of points (lists of at least two entries),
  whatever the order of their coordinates, and \<^verbatim>\<open>to_points\<close> of the result returns
  the four entries as they were passed.
\<close>

theorem from_points_to_points:
  assumes "2 \<le> length p0" and "2 \<le> length p1"
  shows "\<exists>r. from_points p0 p1 = Inr r \<and> to_points r = [p0 ! 0, p0 ! 1, p1 ! 0, p1 ! 1]"
proof -
  from assms have "0 < length p0" "1 < length p0" "0 < length p1" "1 < length p1"
    by linarith+
  then show ?thesis
    unfolding from_points_def getitem_def to_points_def RectP_init_def
    by (simp del: One_nat_def)
qed

theorem from_points_to_points_witness:
  "(2::nat) \<le> length [Some (4::int), Some 1] \<and> (2::nat) \<le> length [Some (-3::int), Some 1]
   \<and> (\<exists>r. from_points [Some (4::int), Some 1] [Some (-3), Some 1] = Inr r
        \<and> to_points r = [Some 4, Some 1, Some (-3), Some 1])"
  using from_points_to_points [of "[Some (4::int), Some 1]" "[Some (-3::int), Some 1]"]
  by simp

subsection \<open>MyQSpinBox\<close>

text \<open>
  C3. In every state of the spin box (the value within the range), Enter emits
  \<^verbatim>\<open>changed\<close> once, carrying the value, and changes nothing. An arrow key that steps
  (Up below the maximum, Down above the minimum) moves the value by one and emits
  \<^verbatim>\<open>changed\<close> once, carrying the new value: what Enter emits in the state reached. The
  same holds for \<^verbatim>\<open>stepBy\<close>, whatever the base class's step does.
\<close>

theorem enter_emits_like_arrow_step:
  assumes "minimum s \<le> cur_value s" and "cur_value s \<le> maximum s"
  shows "keyPressEvent base_key s Key_Return = (s, [cur_value s])
    \<and> (cur_value s < maximum s \<longrightarrow>
         cur_value (fst (keyPressEvent base_key s Key_Up)) = cur_value s + 1
         \<and> snd (keyPressEvent base_key s Key_Up) = [cur_value s + 1]
         \<and> snd (keyPressEvent base_key s Key_Up)
             = snd (keyPressEvent base_key (fst (keyPressEvent base_key s Key_Up)) Key_Return))
    \<and> (minimum s < cur_value s \<longrightarrow>
         cur_value (fst (keyPressEvent base_key s Key_Down)) = cur_value s - 1
         \<and> snd (keyPressEvent base_key s Key_Down) = [cur_value s - 1]
         \<and> snd (keyPressEvent base_key s Key_Down)
             = snd (keyPressEvent base_key (fst (keyPressEvent base_key s Key_Down)) Key_Return))
    \<and> snd (stepBy base_step s n)
         = snd (keyPressEvent base_key (fst (stepBy base_step s n)) Key_Return)"
  using assms
  by (auto simp: keyPressEvent_def stepBy_def setValue_def Let_def)

theorem enter_emits_like_arrow_step_witness:
  "keyPressEvent (\<lambda>s k. (s, [])) \<lparr>cur_value = 4, minimum = 0, maximum = 99\<rparr> Key_Return
     = (\<lparr>cur_value = 4, minimum = 0, maximum = 99\<rparr>, [4])
   \<and> keyPressEvent (\<lambda>s k. (s, [])) \<lparr>cur_value = 3, minimum = 0, maximum = 99\<rparr> Key_Up
     = (\<lparr>cur_value = 4, minimum = 0, maximum = 99\<rparr>, [4])
   \<and> keyPressEvent (\<lambda>s k. (s, [])) \<lparr>cur_value = 5, minimum = 0, maximum = 99\<rparr> Key_Down
     = (\<lparr>cur_value = 4, minimum = 0, maximum = 99\<rparr>, [4])"
  using enter_emits_like_arrow_step
    [of "\<lparr>cur_value = 4, minimum = 0, maximum = 99\<rparr>" "\<lambda>s k. (s, [])"]
  by (simp add: keyPressEvent_def setValue_def)

text \<open>
  C6. Up at or above the maximum and Down at or below the minimum return at once: the
  state is the one before and \<^verbatim>\<open>changed\<close> is not emitted.
\<close>

theorem arrow_at_bound_ignored:
  assumes "(k = Key_Up \<and> maximum s \<le> cur_value s) \<or> (k = Key_Down \<and> cur_value s \<le> minimum s)"
  shows "keyPressEvent base_key s k = (s, [])"
  using assms by (auto simp: keyPressEvent_def)

theorem arrow_at_bound_ignored_witness:
  "keyPressEvent (\<lambda>s k. (s, [7])) \<lparr>cur_value = 99, minimum = 0, maximum = 99\<rparr> Key_Up
     = (\<lparr>cur_value = 99, minimum = 0, maximum = 99\<rparr>, [])
   \<and> keyPressEvent (\<lambda>s k. (s, [7])) \<lparr>cur_value = 0, minimum = 0, maximum = 99\<rparr> Key_Down
     = (\<lparr>cur_value = 0, minimum = 0, maximum = 99\<rparr>, [])"
  using arrow_at_bound_ignored
    [of Key_Up "\<lparr>cur_value = 99, minimum = 0, maximum = 99\<rparr>" "\<lambda>s k. (s, [7])"]
    arrow_at_bound_ignored
    [of Key_Down "\<lparr>cur_value = 0, minimum = 0, maximum = 99\<rparr>" "\<lambda>s k. (s, [7])"]
  by simp

subsection \<open>RadioButtonPanel\<close>

lemma button_uncheck_id: "\<not> checked b \<Longrightarrow> b\<lparr>checked := False\<rparr> = b"
  by (cases b) simp

lemma uncheck_id: "\<not> checked (radioButtons q ! rad) \<Longrightarrow> uncheck q rad = q"
  by (simp add: uncheck_def button_uncheck_id)

lemma setChecked_with_id_False: "setChecked_with (\<lambda>p sender. p) q rad False = uncheck q rad"
  by (auto simp: setChecked_with_def uncheck_id) (simp add: uncheck_def)

lemma uncheck_fields [simp]:
  "names (uncheck q rad) = names q"
  "selected (uncheck q rad) = selected q"
  "length (radioButtons (uncheck q rad)) = length (radioButtons q)"
  by (simp_all add: uncheck_def)

lemma uncheck_nth:
  "k < length (radioButtons q) \<Longrightarrow>
   radioButtons (uncheck q rad) ! k =
     (if k = rad then (radioButtons q ! k)\<lparr>checked := False\<rparr> else radioButtons q ! k)"
  by (simp add: uncheck_def nth_list_update)

lemma uncheck_others_fields [simp]:
  "names (uncheck_others i js q) = names q"
  "selected (uncheck_others i js q) = selected q"
  "length (radioButtons (uncheck_others i js q)) = length (radioButtons q)"
  unfolding uncheck_others_def
  by (induction js arbitrary: q; simp)+

lemma uncheck_others_nth:
  "k < length (radioButtons q) \<Longrightarrow>
   radioButtons (uncheck_others i js q) ! k =
     (if k \<in> set js \<and> k \<noteq> i then (radioButtons q ! k)\<lparr>checked := False\<rparr>
      else radioButtons q ! k)"
  unfolding uncheck_others_def
  by (induction js arbitrary: q) (auto simp: uncheck_nth)

lemma loop_is_uncheck_others:
  "fold (\<lambda>rad q. if rad \<noteq> i then setChecked_with (\<lambda>p sender. p) q rad False else q) js q
     = uncheck_others i js q"
proof -
  have "(\<lambda>rad q. if rad \<noteq> i then setChecked_with (\<lambda>p sender. p) q rad False else q)
          = (\<lambda>rad q. if rad \<noteq> i then uncheck q rad else q)"
    by (intro ext) (simp add: setChecked_with_id_False)
  then show ?thesis by (simp add: uncheck_others_def)
qed

lemma onRadioButtonChanged_checked:
  "checked (radioButtons p ! i) \<Longrightarrow>
   onRadioButtonChanged p i =
     uncheck_others i [0..<length (radioButtons p)]
       (p\<lparr>selected := Some (btn_text (radioButtons p ! i))\<rparr>)"
  by (simp add: onRadioButtonChanged_def onRadioButtonChanged_with_def loop_is_uncheck_others)

lemma onRadioButtonChanged_unchecked:
  "\<not> checked (radioButtons p ! i) \<Longrightarrow> onRadioButtonChanged p i = p"
  by (simp add: onRadioButtonChanged_def onRadioButtonChanged_with_def)

lemma setChecked_own_False:
  "i < length (radioButtons q) \<Longrightarrow> setChecked_with onRadioButtonChanged q i False = uncheck q i"
  by (auto simp: setChecked_with_def uncheck_id onRadioButtonChanged_unchecked)
     (simp add: uncheck_def)

lemma loop_own_is_uncheck_others:
  "\<forall>j\<in>set js. j < length (radioButtons q) \<Longrightarrow>
   fold (\<lambda>rad q. if rad \<noteq> i then setChecked_with onRadioButtonChanged q rad False else q) js q
     = uncheck_others i js q"
  unfolding uncheck_others_def
  by (induction js arbitrary: q) (simp_all add: setChecked_own_False)

lemma onRadioButtonChanged_unfold:
  "onRadioButtonChanged p sender = onRadioButtonChanged_with onRadioButtonChanged p sender"
proof (cases "checked (radioButtons p ! sender)")
  case True
  have "\<forall>j\<in>set [0..<length (radioButtons p)].
          j < length (radioButtons (p\<lparr>selected := Some (btn_text (radioButtons p ! sender))\<rparr>))"
    by simp
  then have "fold (\<lambda>rad q. if rad \<noteq> sender
                 then setChecked_with onRadioButtonChanged q rad False else q)
               [0..<length (radioButtons p)]
               (p\<lparr>selected := Some (btn_text (radioButtons p ! sender))\<rparr>)
             = uncheck_others sender [0..<length (radioButtons p)]
                 (p\<lparr>selected := Some (btn_text (radioButtons p ! sender))\<rparr>)"
    by (rule loop_own_is_uncheck_others)
  with True show ?thesis
    by (simp add: onRadioButtonChanged_checked onRadioButtonChanged_with_def [of onRadioButtonChanged])
next
  case False
  then show ?thesis
    by (simp add: onRadioButtonChanged_unchecked onRadioButtonChanged_with_def [of onRadioButtonChanged])
qed

lemma filter_upt_single: "i < n \<Longrightarrow> filter (\<lambda>k. k = i) [0..<n] = [i]"
  by (induction n) (auto simp: less_Suc_eq)

lemma filter_upt_only:
  assumes "i < n" and "\<And>k. k < n \<Longrightarrow> P k \<longleftrightarrow> k = i"
  shows "filter P [0..<n] = [i]"
proof -
  have "filter P [0..<n] = filter (\<lambda>k. k = i) [0..<n]"
    by (rule filter_cong) (auto simp: assms(2))
  with assms(1) show ?thesis by (simp add: filter_upt_single)
qed

lemma filter_upt_at_most_one:
  assumes "\<And>j k. j < n \<Longrightarrow> k < n \<Longrightarrow> P j \<Longrightarrow> P k \<Longrightarrow> j = k"
  shows "length (filter P [0..<n]) \<le> 1"
proof (cases "\<exists>i<n. P i")
  case True
  then obtain i where "i < n" "P i" by blast
  then have "filter P [0..<n] = [i]"
    by (intro filter_upt_only) (auto dest: assms)
  then show ?thesis by simp
next
  case False
  then have "filter P [0..<n] = []" by (auto simp: filter_empty_conv)
  then show ?thesis by simp
qed

lemma setChecked_False:
  "i < length (radioButtons p) \<Longrightarrow> setChecked p i False = uncheck p i"
  by (simp add: setChecked_def setChecked_own_False)

lemma setChecked_True_checked:
  "checked (radioButtons p ! i) \<Longrightarrow> setChecked p i True = p"
  by (simp add: setChecked_def setChecked_with_def)

lemma setChecked_True_unchecked:
  assumes "i < length (radioButtons p)" and "\<not> checked (radioButtons p ! i)"
  shows "setChecked p i True =
     uncheck_others i [0..<length (radioButtons p)]
       (p\<lparr>radioButtons := (radioButtons p)[i := (radioButtons p ! i)\<lparr>checked := True\<rparr>],
          selected := Some (btn_text (radioButtons p ! i))\<rparr>)"
  using assms
  by (simp add: setChecked_def setChecked_with_def onRadioButtonChanged_checked)

lemma setChecked_True_nth:
  assumes "i < length (radioButtons p)" and "\<not> checked (radioButtons p ! i)"
    and "k < length (radioButtons p)"
  shows "radioButtons (setChecked p i True) ! k =
           (radioButtons p ! k)\<lparr>checked := (k = i)\<rparr>"
  using assms
  by (simp add: setChecked_True_unchecked uncheck_others_nth nth_list_update)

lemma setChecked_True_fields:
  assumes "i < length (radioButtons p)" and "\<not> checked (radioButtons p ! i)"
  shows "names (setChecked p i True) = names p"
    and "length (radioButtons (setChecked p i True)) = length (radioButtons p)"
    and "selected (setChecked p i True) = Some (btn_text (radioButtons p ! i))"
  using assms by (simp_all add: setChecked_True_unchecked)

lemma setChecked_length:
  "i < length (radioButtons p) \<Longrightarrow>
   length (radioButtons (setChecked p i c)) = length (radioButtons p)"
  by (cases c; cases "checked (radioButtons p ! i)")
     (simp_all add: setChecked_False setChecked_True_checked setChecked_True_fields)

lemma setChecked_names:
  "i < length (radioButtons p) \<Longrightarrow> names (setChecked p i c) = names p"
  by (cases c; cases "checked (radioButtons p ! i)")
     (simp_all add: setChecked_False setChecked_True_checked setChecked_True_fields)

lemma setChecked_text:
  assumes "i < length (radioButtons p)" and "k < length (radioButtons p)"
  shows "btn_text (radioButtons (setChecked p i c) ! k) = btn_text (radioButtons p ! k)"
proof (cases c)
  case False
  with assms show ?thesis by (simp add: setChecked_False uncheck_nth)
next
  case True
  with assms show ?thesis
    by (cases "checked (radioButtons p ! i)")
       (simp_all add: setChecked_True_checked setChecked_True_nth)
qed

lemma setChecked_map_text:
  assumes "i < length (radioButtons p)"
  shows "map btn_text (radioButtons (setChecked p i c)) = map btn_text (radioButtons p)"
  using assms
  by (intro nth_equalityI) (simp_all add: setChecked_length setChecked_text)

lemma panel_inv_uncheck:
  assumes "panel_inv p" and "i < length (radioButtons p)"
  shows "panel_inv (setChecked p i False)"
proof -
  have m: "map btn_text (radioButtons (setChecked p i False)) = names (setChecked p i False)"
    using assms by (simp add: setChecked_map_text setChecked_names panel_inv_def)
  have c: "\<And>k. k < length (radioButtons p) \<Longrightarrow>
             checked (radioButtons (setChecked p i False) ! k) \<Longrightarrow> checked (radioButtons p ! k)"
    using assms(2) by (simp add: setChecked_False uncheck_nth split: if_splits)
  have s: "selected (setChecked p i False) = selected p"
    using assms(2) by (simp add: setChecked_False)
  show ?thesis
    unfolding panel_inv_def
    using assms m c s
    by (auto simp: panel_inv_def setChecked_length setChecked_names setChecked_text)
qed

lemma panel_inv_check:
  assumes "panel_inv p" and "i < length (radioButtons p)"
  shows "panel_inv (setChecked p i True)"
proof (cases "checked (radioButtons p ! i)")
  case True
  with assms show ?thesis by (simp add: setChecked_True_checked)
next
  case False
  from assms have "btn_text (radioButtons p ! i) \<in> set (names p)"
    unfolding panel_inv_def by (metis length_map nth_map nth_mem)
  with assms False show ?thesis
    unfolding panel_inv_def
    by (auto simp: setChecked_map_text setChecked_True_fields setChecked_True_nth)
qed

lemma panel_inv_setChecked:
  "panel_inv p \<Longrightarrow> i < length (radioButtons p) \<Longrightarrow> panel_inv (setChecked p i c)"
  by (cases c) (simp_all add: panel_inv_check panel_inv_uncheck)

lemma panel_run_inv:
  assumes "panel_inv p" and "\<forall>e\<in>set es. fst e < length (radioButtons p)"
  shows "panel_inv (panel_run p es)
         \<and> length (radioButtons (panel_run p es)) = length (radioButtons p)
         \<and> names (panel_run p es) = names p"
  using assms
proof (induction es arbitrary: p)
  case Nil
  then show ?case by simp
next
  case (Cons e es)
  let ?q = "setChecked p (fst e) (snd e)"
  from Cons.prems have i: "fst e < length (radioButtons p)" by simp
  with Cons.prems have "panel_inv ?q" by (simp add: panel_inv_setChecked)
  moreover from i have l: "length (radioButtons ?q) = length (radioButtons p)"
    by (rule setChecked_length)
  moreover from Cons.prems l have "\<forall>e\<in>set es. fst e < length (radioButtons ?q)" by simp
  ultimately have "panel_inv (panel_run ?q es)
         \<and> length (radioButtons (panel_run ?q es)) = length (radioButtons ?q)
         \<and> names (panel_run ?q es) = names ?q"
    by (intro Cons.IH)
  with l i show ?case by (simp add: setChecked_names)
qed

lemma init_nonempty:
  "ns \<noteq> [] \<Longrightarrow>
   RadioButtonPanel_init ns hori = Inr ((setChecked (fresh_panel ns) 0 True)\<lparr>selected := Some (ns ! 0)\<rparr>)"
  by (simp add: RadioButtonPanel_init_def getitem_def fresh_panel_def Let_def
        setChecked_names [of 0])

lemma init_empty: "RadioButtonPanel_init [] hori = Inl IndexError"
  by (simp add: RadioButtonPanel_init_def getitem_def)

lemma init_panel_facts:
  assumes "ns \<noteq> []" and "RadioButtonPanel_init ns hori = Inr p"
  shows "names p = ns" and "length (radioButtons p) = length ns"
    and "selected p = Some (ns ! 0)"
    and "\<And>k. k < length ns \<Longrightarrow> radioButtons p ! k = \<lparr>btn_text = ns ! k, checked = (k = 0)\<rparr>"
proof -
  let ?f = "fresh_panel ns"
  have l: "0 < length (radioButtons ?f)" using assms(1) by (simp add: fresh_panel_def)
  have u: "\<not> checked (radioButtons ?f ! 0)" using assms(1) by (simp add: fresh_panel_def)
  have p: "p = (setChecked ?f 0 True)\<lparr>selected := Some (ns ! 0)\<rparr>"
    using assms by (simp add: init_nonempty)
  show "names p = ns" using l u by (simp add: p setChecked_True_fields fresh_panel_def)
  show "length (radioButtons p) = length ns"
    using l u by (simp add: p setChecked_True_fields) (simp add: fresh_panel_def)
  show "selected p = Some (ns ! 0)" by (simp add: p)
  show "radioButtons p ! k = \<lparr>btn_text = ns ! k, checked = (k = 0)\<rparr>" if "k < length ns" for k
  proof -
    from that have "k < length (radioButtons ?f)" by (simp add: fresh_panel_def)
    with l u have "radioButtons (setChecked ?f 0 True) ! k = (radioButtons ?f ! k)\<lparr>checked := (k = 0)\<rparr>"
      by (rule setChecked_True_nth)
    with that show ?thesis by (simp add: p fresh_panel_def)
  qed
qed

lemma init_panel_inv:
  assumes "ns \<noteq> []" and "RadioButtonPanel_init ns hori = Inr p"
  shows "panel_inv p"
proof -
  note f = init_panel_facts [OF assms]
  have "map btn_text (radioButtons p) = ns"
    by (intro nth_equalityI) (simp_all add: f)
  moreover have "ns ! 0 \<in> set ns" using assms(1) by simp
  ultimately show ?thesis
    unfolding panel_inv_def using f by auto
qed

lemma checked_buttons_at_most_one:
  "panel_inv p \<Longrightarrow> length (checked_buttons p) \<le> 1"
  unfolding checked_buttons_def panel_inv_def
  by (intro filter_upt_at_most_one) blast

lemma checked_buttons_after_check:
  assumes "panel_inv p" and "i < length (radioButtons p)"
  shows "checked_buttons (setChecked p i True) = [i]"
proof (cases "checked (radioButtons p ! i)")
  case True
  with assms have "\<And>k. k < length (radioButtons p) \<Longrightarrow> checked (radioButtons p ! k) \<longleftrightarrow> k = i"
    unfolding panel_inv_def by blast
  with assms(2) True show ?thesis
    unfolding checked_buttons_def
    by (simp add: setChecked_True_checked filter_upt_only)
next
  case False
  with assms(2) show ?thesis
    unfolding checked_buttons_def
    by (simp add: setChecked_True_fields filter_upt_only setChecked_True_nth)
qed

lemma selected_after_check:
  assumes "panel_inv p" and "i < length (radioButtons p)"
  shows "selected (setChecked p i True) = Some (btn_text (radioButtons p ! i))"
proof (cases "checked (radioButtons p ! i)")
  case True
  with assms show ?thesis by (simp add: setChecked_True_checked panel_inv_def)
next
  case False
  with assms(2) show ?thesis by (simp add: setChecked_True_fields)
qed

lemma init_layout_irrelevant: "RadioButtonPanel_init ns hori = RadioButtonPanel_init ns True"
  by (simp add: RadioButtonPanel_init_def)

text \<open>
  C9. The constructor raises IndexError exactly for the empty name list. For a name list
  that is not empty it returns a panel whose first button is checked and whose selection
  is the first name.
\<close>

theorem init_empty_raises:
  "(RadioButtonPanel_init ns hori = Inl IndexError \<longleftrightarrow> ns = [])
   \<and> (ns \<noteq> [] \<longrightarrow>
        (\<exists>p. RadioButtonPanel_init ns hori = Inr p
           \<and> checked (radioButtons p ! 0) \<and> getCurrentSelection p = Some (ns ! 0)))"
proof (cases "ns = []")
  case True
  then show ?thesis by (simp add: init_empty)
next
  case False
  then obtain p where p: "RadioButtonPanel_init ns hori = Inr p" by (simp add: init_nonempty)
  from False have "0 < length ns" by simp
  with init_panel_facts [OF False p] have "checked (radioButtons p ! 0)" "selected p = Some (ns ! 0)"
    by simp_all
  with False p show ?thesis by (simp add: getCurrentSelection_def)
qed

theorem init_empty_raises_witness:
  "[''A'', ''B''] \<noteq> []
   \<and> RadioButtonPanel_init [''A'', ''B''] True
       = Inr \<lparr>names = [''A'', ''B''],
              radioButtons = [\<lparr>btn_text = ''A'', checked = True\<rparr>, \<lparr>btn_text = ''B'', checked = False\<rparr>],
              selected = Some ''A''\<rparr>
   \<and> RadioButtonPanel_init [] True = Inl IndexError"
proof -
  have "RadioButtonPanel_init [''A'', ''B''] True
       = Inr \<lparr>names = [''A'', ''B''],
              radioButtons = [\<lparr>btn_text = ''A'', checked = True\<rparr>, \<lparr>btn_text = ''B'', checked = False\<rparr>],
              selected = Some ''A''\<rparr>"
    by code_simp
  with init_empty_raises [of "[''A'', ''B'']" True] init_empty_raises [of "[]" True]
  show ?thesis by simp
qed

text \<open>
  C4. The panel constructed with the names A, B, C: the selection is A right after
  construction; after button C is checked the selection is C, and C is the only button
  that reports checked. The layout direction does not matter.
\<close>

theorem radio_panel_abc:
  "RadioButtonPanel_init [''A'', ''B'', ''C''] hori
     = Inr \<lparr>names = [''A'', ''B'', ''C''],
            radioButtons = [\<lparr>btn_text = ''A'', checked = True\<rparr>,
                            \<lparr>btn_text = ''B'', checked = False\<rparr>,
                            \<lparr>btn_text = ''C'', checked = False\<rparr>],
            selected = Some ''A''\<rparr>
   \<and> getCurrentSelection
        \<lparr>names = [''A'', ''B'', ''C''],
         radioButtons = [\<lparr>btn_text = ''A'', checked = True\<rparr>,
                         \<lparr>btn_text = ''B'', checked = False\<rparr>,
                         \<lparr>btn_text = ''C'', checked = False\<rparr>],
         selected = Some ''A''\<rparr> = Some ''A''
   \<and> setChecked
        \<lparr>names = [''A'', ''B'', ''C''],
         radioButtons = [\<lparr>btn_text = ''A'', checked = True\<rparr>,
                         \<lparr>btn_text = ''B'', checked = False\<rparr>,
                         \<lparr>btn_text = ''C'', checked = False\<rparr>],
         selected = Some ''A''\<rparr> 2 True
     = \<lparr>names = [''A'', ''B'', ''C''],
        radioButtons = [\<lparr>btn_text = ''A'', checked = False\<rparr>,
                        \<lparr>btn_text = ''B'', checked = False\<rparr>,
                        \<lparr>btn_text = ''C'', checked = True\<rparr>],
        selected = Some ''C''\<rparr>
   \<and> getCurrentSelection
        \<lparr>names = [''A'', ''B'', ''C''],
         radioButtons = [\<lparr>btn_text = ''A'', checked = False\<rparr>,
                         \<lparr>btn_text = ''B'', checked = False\<rparr>,
                         \<lparr>btn_text = ''C'', checked = True\<rparr>],
         selected = Some ''C''\<rparr> = Some ''C''"
  by (subst init_layout_irrelevant) code_simp

text \<open>
  C5 as the code has it. For every name list that is not empty the constructor returns a
  panel whose selection is the first name and whose only checked button is the first.
  In every state reached from it by toggles of its buttons, \<^verbatim>\<open>getCurrentSelection()\<close>
  returns one of the names, at most one button is checked, and a checked button carries
  the label \<^verbatim>\<open>getCurrentSelection()\<close> returns; switching a button on in such a state
  makes it the only checked button and makes its label the selection.
\<close>

theorem panel_selection:
  assumes "ns \<noteq> []" and "\<forall>e\<in>set es. fst e < length ns"
  shows "\<exists>p0. RadioButtonPanel_init ns hori = Inr p0
     \<and> getCurrentSelection p0 = Some (ns ! 0) \<and> checked_buttons p0 = [0]
     \<and> (\<exists>n\<in>set ns. getCurrentSelection (panel_run p0 es) = Some n)
     \<and> length (checked_buttons (panel_run p0 es)) \<le> 1
     \<and> (\<forall>j\<in>set (checked_buttons (panel_run p0 es)).
           getCurrentSelection (panel_run p0 es) = Some (ns ! j))
     \<and> (\<forall>i<length ns.
           checked_buttons (setChecked (panel_run p0 es) i True) = [i]
           \<and> getCurrentSelection (setChecked (panel_run p0 es) i True) = Some (ns ! i))"
proof -
  from assms(1) obtain p0 where p0: "RadioButtonPanel_init ns hori = Inr p0"
    by (simp add: init_nonempty)
  note f = init_panel_facts [OF assms(1) p0]
  have inv0: "panel_inv p0" using assms(1) p0 by (rule init_panel_inv)
  let ?p = "panel_run p0 es"
  from assms(2) f(2) have "\<forall>e\<in>set es. fst e < length (radioButtons p0)" by simp
  with inv0 have r: "panel_inv ?p" "length (radioButtons ?p) = length ns" "names ?p = ns"
    using f(1,2) by (simp_all add: panel_run_inv)
  have t: "btn_text (radioButtons ?p ! j) = ns ! j" if "j < length ns" for j
    using r that unfolding panel_inv_def by (metis nth_map)
  have "checked_buttons p0 = [0]"
    unfolding checked_buttons_def using assms(1) f
    by (intro filter_upt_only) auto
  moreover have "\<exists>n\<in>set ns. getCurrentSelection ?p = Some n"
    using r unfolding panel_inv_def getCurrentSelection_def by simp
  moreover have "length (checked_buttons ?p) \<le> 1"
    using r(1) by (rule checked_buttons_at_most_one)
  moreover have "\<forall>j\<in>set (checked_buttons ?p). getCurrentSelection ?p = Some (ns ! j)"
    using r t unfolding panel_inv_def getCurrentSelection_def checked_buttons_def by auto
  moreover have "\<forall>i<length ns. checked_buttons (setChecked ?p i True) = [i]
           \<and> getCurrentSelection (setChecked ?p i True) = Some (ns ! i)"
    using r t by (simp add: checked_buttons_after_check selected_after_check getCurrentSelection_def)
  ultimately show ?thesis using p0 f(3) by (simp add: getCurrentSelection_def)
qed

theorem panel_selection_witness:
  "[''A'', ''B'', ''C''] \<noteq> []
   \<and> list_all (\<lambda>e. fst e < length [''A'', ''B'', ''C'']) [(2, True), (2, False)]
   \<and> RadioButtonPanel_init [''A'', ''B'', ''C''] True
       = Inr \<lparr>names = [''A'', ''B'', ''C''],
              radioButtons = [\<lparr>btn_text = ''A'', checked = True\<rparr>,
                              \<lparr>btn_text = ''B'', checked = False\<rparr>,
                              \<lparr>btn_text = ''C'', checked = False\<rparr>],
              selected = Some ''A''\<rparr>
   \<and> panel_run
        \<lparr>names = [''A'', ''B'', ''C''],
         radioButtons = [\<lparr>btn_text = ''A'', checked = True\<rparr>,
                         \<lparr>btn_text = ''B'', checked = False\<rparr>,
                         \<lparr>btn_text = ''C'', checked = False\<rparr>],
         selected = Some ''A''\<rparr> [(2, True), (2, False)]
     = \<lparr>names = [''A'', ''B'', ''C''],
        radioButtons = [\<lparr>btn_text = ''A'', checked = False\<rparr>,
                        \<lparr>btn_text = ''B'', checked = False\<rparr>,
                        \<lparr>btn_text = ''C'', checked = False\<rparr>],
        selected = Some ''C''\<rparr>
   \<and> checked_buttons
        (setChecked
          \<lparr>names = [''A'', ''B'', ''C''],
           radioButtons = [\<lparr>btn_text = ''A'', checked = False\<rparr>,
                           \<lparr>btn_text = ''B'', checked = False\<rparr>,
                           \<lparr>btn_text = ''C'', checked = False\<rparr>],
           selected = Some ''C''\<rparr> 1 True) = [1]"
proof -
  have "list_all (\<lambda>e. fst e < length [''A'', ''B'', ''C'']) [(2, True), (2::nat, False)]"
    by simp
  moreover have "panel_run
        \<lparr>names = [''A'', ''B'', ''C''],
         radioButtons = [\<lparr>btn_text = ''A'', checked = True\<rparr>,
                         \<lparr>btn_text = ''B'', checked = False\<rparr>,
                         \<lparr>btn_text = ''C'', checked = False\<rparr>],
         selected = Some ''A''\<rparr> [(2, True), (2, False)]
     = \<lparr>names = [''A'', ''B'', ''C''],
        radioButtons = [\<lparr>btn_text = ''A'', checked = False\<rparr>,
                        \<lparr>btn_text = ''B'', checked = False\<rparr>,
                        \<lparr>btn_text = ''C'', checked = False\<rparr>],
        selected = Some ''C''\<rparr>"
    by code_simp
  moreover have "RadioButtonPanel_init [''A'', ''B'', ''C''] True
       = Inr \<lparr>names = [''A'', ''B'', ''C''],
              radioButtons = [\<lparr>btn_text = ''A'', checked = True\<rparr>,
                              \<lparr>btn_text = ''B'', checked = False\<rparr>,
                              \<lparr>btn_text = ''C'', checked = False\<rparr>],
              selected = Some ''A''\<rparr>"
    by code_simp
  ultimately show ?thesis
    using panel_selection [of "[''A'', ''B'', ''C'']" "[(2, True), (2, False)]" True]
    by (simp add: list_all_iff)
qed

text \<open>
  C5 as stated asks for exactly one checked button in every reachable state. Switching
  off the only button of a one-name panel reaches a state in which no button is checked,
  while \<^verbatim>\<open>getCurrentSelection()\<close> still returns its label: the slot returns at once for
  a sender that is not checked.
\<close>

theorem exactly_one_checked_counterexample:
  "RadioButtonPanel_init [''A''] True
     = Inr \<lparr>names = [''A''], radioButtons = [\<lparr>btn_text = ''A'', checked = True\<rparr>],
            selected = Some ''A''\<rparr>
   \<and> panel_run \<lparr>names = [''A''], radioButtons = [\<lparr>btn_text = ''A'', checked = True\<rparr>],
            selected = Some ''A''\<rparr> [(0, False)]
     = \<lparr>names = [''A''], radioButtons = [\<lparr>btn_text = ''A'', checked = False\<rparr>],
            selected = Some ''A''\<rparr>
   \<and> checked_buttons \<lparr>names = [''A''], radioButtons = [\<lparr>btn_text = ''A'', checked = False\<rparr>],
            selected = Some ''A''\<rparr> = []"
  by code_simp

end
